theory Spec2Isabelle
  imports Main "HOL-Library.Word"
begin

section \<open>Python values used by \<open>nano_banana_server.py\<close>\<close>

text \<open>
  Python \<open>bytes\<close> are lists of 8-bit words, Python \<open>str\<close> is \<open>string\<close>; a character
  with code above 127 stands for a non-ASCII character. An exception object is its class
  name together with the text \<open>str(e)\<close>: \<open>PyExc\<close> for an instance of \<open>Exception\<close>,
  which a handler \<open>except Exception\<close> catches, and \<open>PyBaseExc\<close> for an instance of
  \<open>BaseException\<close> outside \<open>Exception\<close> (\<open>KeyboardInterrupt\<close>, \<open>SystemExit\<close>,
  \<open>GeneratorExit\<close>, \<open>asyncio.CancelledError\<close>), which such a handler lets through.
  The diagnostic \<open>print\<close> calls of the source are left out, except the one in the
  handler of \<open>generate_image\<close>: it runs outside any \<open>try\<close>, so an exception it raises
  leaves the function.
\<close>

type_synonym byte = "8 word"
type_synonym bytes = "byte list"

datatype py_exception =
  is_Exception: PyExc (exc_class: string) (exc_str: string)
| PyBaseExc (exc_class: string) (exc_str: string)

datatype py_value = PyBool bool | PyStr string | PyInt int | PyNone

type_synonym py_dict = "string \<rightharpoonup> py_value"

text \<open>Truthiness of an \<open>Optional[str]\<close> or \<open>Optional[bytes]\<close>: neither \<open>None\<close> nor empty.\<close>

fun truthy :: "'a list option \<Rightarrow> bool" where
  "truthy None = False"
| "truthy (Some xs) = (xs \<noteq> [])"

text \<open>\<open>a or b\<close> on optional sequences.\<close>

definition py_or :: "'a list option \<Rightarrow> 'a list option \<Rightarrow> 'a list option" where
  "py_or a b = (if truthy a then a else b)"

text \<open>A word between single quotes, as in the interpreter's messages.\<close>

definition quoted :: "string \<Rightarrow> string" where
  "quoted s = CHR 0x27 # s @ [CHR 0x27]"

text \<open>The decimal digits of a natural number (\<open>%zd\<close>).\<close>

fun str_nat :: "nat \<Rightarrow> string" where
  "str_nat n = (if n < 10 then [char_of (48 + n)]
                else str_nat (n div 10) @ [char_of (48 + n mod 10)])"

declare str_nat.simps [simp del]

section \<open>The standard library's \<open>base64\<close>\<close>

text \<open>
  \<open>base64.b64encode\<close> and \<open>base64.b64decode\<close> belong to Python's standard library, not
  to the repository. They are written out here after CPython's \<open>binascii\<close> module
  (\<open>b2a_base64\<close> with \<open>newline=False\<close>, \<open>a2b_base64\<close> with \<open>strict_mode=False\<close>), with the
  shifts and masks on six-bit groups as \<open>div\<close> and \<open>mod\<close> on naturals.
\<close>

definition table_b2a_base64 :: string where
  "table_b2a_base64 = ''ABCDEFGHIJKLMNOPQRSTUVWXYZabcdefghijklmnopqrstuvwxyz0123456789+/''"

definition b2a :: "nat \<Rightarrow> char" where
  "b2a n = table_b2a_base64 ! n"

primrec index_of :: "'a \<Rightarrow> 'a list \<Rightarrow> nat option" where
  "index_of c [] = None"
| "index_of c (x # xs) = (if x = c then Some 0 else map_option Suc (index_of c xs))"

text \<open>The decoding table: the six-bit value of an alphabet character, \<open>None\<close> for any other.\<close>

definition table_a2b_base64 :: "char \<Rightarrow> nat option" where
  "table_a2b_base64 c = index_of c table_b2a_base64"

fun b2a_base64 :: "bytes \<Rightarrow> string" where
  "b2a_base64 [] = []"
| "b2a_base64 [a] =
     [b2a (unat a div 4), b2a (unat a mod 4 * 16), CHR ''='', CHR ''='']"
| "b2a_base64 [a, b] =
     [b2a (unat a div 4), b2a (unat a mod 4 * 16 + unat b div 16),
      b2a (unat b mod 16 * 4), CHR ''='']"
| "b2a_base64 (a # b # c # rest) =
     [b2a (unat a div 4), b2a (unat a mod 4 * 16 + unat b div 16),
      b2a (unat b mod 16 * 4 + unat c div 64), b2a (unat c mod 64)] @ b2a_base64 rest"

definition b64encode :: "bytes \<Rightarrow> string" where
  "b64encode s = b2a_base64 s"

text \<open>
  The decoding loop of \<open>a2b_base64\<close>. It leaves either through \<open>goto done\<close> at a
  completed pad sequence (\<open>Done\<close>) or at the end of the input (\<open>Exhausted\<close>, with the
  position in the current quad).
\<close>

datatype a2b_exit = Done bytes | Exhausted nat bytes

fun a2b_loop :: "nat \<Rightarrow> nat \<Rightarrow> nat \<Rightarrow> bytes \<Rightarrow> string \<Rightarrow> a2b_exit" where
  "a2b_loop quad_pos leftchar pads out [] = Exhausted quad_pos out"
| "a2b_loop quad_pos leftchar pads out (this_ch # rest) =
     (if this_ch = CHR ''='' then
        (if 2 \<le> quad_pos then
           (if 4 \<le> quad_pos + (pads + 1) then Done out
            else a2b_loop quad_pos leftchar (pads + 1) out rest)
         else a2b_loop quad_pos leftchar pads out rest)
      else
        (case table_a2b_base64 this_ch of
           None \<Rightarrow> a2b_loop quad_pos leftchar pads out rest
         | Some v \<Rightarrow>
             (if quad_pos = 0 then a2b_loop 1 v 0 out rest
              else if quad_pos = 1 then
                a2b_loop 2 (v mod 16) 0 (out @ [of_nat (leftchar * 4 + v div 16)]) rest
              else if quad_pos = 2 then
                a2b_loop 3 (v mod 4) 0 (out @ [of_nat (leftchar * 16 + v div 4)]) rest
              else a2b_loop 0 0 0 (out @ [of_nat (leftchar * 64 + v)]) rest)))"

definition a2b_base64 :: "string \<Rightarrow> py_exception + bytes" where
  "a2b_base64 s =
     (case a2b_loop 0 0 0 [] s of
        Done out \<Rightarrow> Inr out
      | Exhausted quad_pos out \<Rightarrow>
          (if quad_pos \<noteq> 0 then
             (if quad_pos = 1 then
                Inl (PyExc ''binascii.Error''
                  (''Invalid base64-encoded string: number of data characters (''
                   @ str_nat (length out div 3 * 4 + 1)
                   @ '') cannot be 1 more than a multiple of 4''))
              else Inl (PyExc ''binascii.Error'' ''Incorrect padding''))
           else Inr out))"

definition b64decode :: "string \<Rightarrow> py_exception + bytes" where
  "b64decode s =
     (if list_ex (\<lambda>c. 128 \<le> (of_char c :: nat)) s then
        Inl (PyExc ''ValueError'' ''string argument should contain only ASCII characters'')
      else a2b_base64 s)"

section \<open>The \<open>google.genai\<close> client library as the server sees it\<close>

text \<open>
  The response of \<open>generate_content\<close> with the optional fields the source reads, and
  \<open>hasattr\<close> probes as \<open>Absent\<close> / \<open>Has\<close>.
\<close>

datatype 'a attribute = Absent | Has 'a

datatype Blob = Blob (data: "bytes option attribute")

datatype Part = Part (inline_data: "Blob option attribute")

datatype Content = Content (parts: "Part list option")

datatype Candidate = Candidate (content: "Content option")

datatype GenerateContentResponse = GenerateContentResponse (candidates: "Candidate list option")

text \<open>An element of the \<open>contents\<close> list: the prompt text or a part built from bytes.\<close>

datatype 'p content_item = Text string | Image 'p

text \<open>
  The three operations of the library the server calls, each of which may raise:
  the constructor \<open>Client(api_key=...)\<close>, \<open>types.Part.from_bytes(data=..., mime_type=...)\<close>
  and \<open>client.models.generate_content(model=..., contents=...)\<close>. The type \<open>'c\<close> is the
  client handle, \<open>'p\<close> the input part.
\<close>

record ('c, 'p) genai =
  Client :: "string \<Rightarrow> py_exception + 'c"
  Part_from_bytes :: "bytes \<Rightarrow> string \<Rightarrow> py_exception + 'p"
  generate_content :: "'c \<Rightarrow> string \<Rightarrow> 'p content_item list \<Rightarrow> py_exception + GenerateContentResponse"

text \<open>The calls that leave the process, recorded in the order they are made.\<close>

datatype ('c, 'p) sdk_call =
  Client_call string
| Generate_content_call 'c string "'p content_item list"

section \<open>The server\<close>

record ImageGenerationRequest =
  prompt :: string
  input_image_data :: "bytes option"
  input_image_mime_type :: "string option"

record ImageGenerationResponse =
  success :: bool
  generated_image_data :: "bytes option"
  error_message :: "string option"
  model_used :: string

definition default_model_used :: string where
  "default_model_used = ''gemini-2.5-flash-image-preview''"

record 'c NanoBananaMCPServer =
  api_key :: string
  model_name :: string
  client :: "'c option"

text \<open>The server object together with the record of the library calls made so far.\<close>

record ('c, 'p) world =
  server :: "'c NanoBananaMCPServer"
  trace :: "('c, 'p) sdk_call list"

text \<open>\<open>__init__\<close>, with \<open>os.getenv\<close> reading the given environment.\<close>

definition NanoBananaMCPServer_init ::
  "string option \<Rightarrow> (string \<rightharpoonup> string) \<Rightarrow> py_exception + 'c NanoBananaMCPServer" where
  "NanoBananaMCPServer_init api_key_arg environ =
     (case py_or api_key_arg (environ ''GOOGLE_AI_STUDIO_API_KEY'') of
        None \<Rightarrow> Inl (PyExc ''ValueError''
          ''Google AI Studio API key is required. Set GOOGLE_AI_STUDIO_API_KEY environment variable.'')
      | Some k \<Rightarrow>
          (if k = [] then Inl (PyExc ''ValueError''
             ''Google AI Studio API key is required. Set GOOGLE_AI_STUDIO_API_KEY environment variable.'')
           else Inr \<lparr>api_key = k, model_name = ''gemini-2.5-flash-image-preview'', client = None\<rparr>))"

text \<open>\<open>_get_client\<close>.\<close>

definition get_client ::
  "('c, 'p) genai \<Rightarrow> ('c, 'p) world \<Rightarrow> (py_exception + 'c) \<times> ('c, 'p) world" where
  "get_client sdk w =
     (case client (server w) of
        None \<Rightarrow>
          (let w1 = w\<lparr>trace := trace w @ [Client_call (api_key (server w))]\<rparr> in
           case Client sdk (api_key (server w)) of
             Inl e \<Rightarrow> (Inl e, w1)
           | Inr c \<Rightarrow> (Inr c, w1\<lparr>server := (server w1)\<lparr>client := Some c\<rparr>\<rparr>))
      | Some c \<Rightarrow> (Inr c, w))"

text \<open>The content list: the prompt, then the input image if one is provided.\<close>

definition prepare_contents ::
  "('c, 'p) genai \<Rightarrow> ImageGenerationRequest \<Rightarrow> py_exception + 'p content_item list" where
  "prepare_contents sdk request =
     (case input_image_data request of
        None \<Rightarrow> Inr [Text (prompt request)]
      | Some d \<Rightarrow>
          (if d = [] then Inr [Text (prompt request)]
           else
             (case Part_from_bytes sdk d
                     (case py_or (input_image_mime_type request) (Some ''image/png'') of
                        None \<Rightarrow> ''image/png'' | Some m \<Rightarrow> m) of
                Inl e \<Rightarrow> Inl e
              | Inr image_part \<Rightarrow> Inr [Text (prompt request), Image image_part])))"

text \<open>
  The test of the loop body on one part: \<open>hasattr(part, 'inline_data')\<close>, \<open>is not None\<close>,
  \<open>hasattr(part.inline_data, 'data')\<close> and the truthiness of the data.
\<close>

definition inline_image :: "Part \<Rightarrow> bytes option" where
  "inline_image part =
     (case inline_data part of
        Has (Some blob) \<Rightarrow>
          (case data blob of
             Has (Some d) \<Rightarrow> (if d \<noteq> [] then Some d else None)
           | _ \<Rightarrow> None)
      | _ \<Rightarrow> None)"

text \<open>The \<open>for part in ...\<close> loop: the first part that passes the test, then \<open>break\<close>.\<close>

fun scan_parts :: "Part list \<Rightarrow> bytes option" where
  "scan_parts [] = None"
| "scan_parts (part # rest) =
     (case inline_image part of
        Some d \<Rightarrow> Some d
      | None \<Rightarrow> scan_parts rest)"

text \<open>
  Reading the response: \<open>len(response.candidates)\<close>, \<open>response.candidates[0].content.parts\<close>
  and the loop, with the exceptions the interpreter raises on \<open>None\<close> and on an empty list.
\<close>

definition extract_generated_image :: "GenerateContentResponse \<Rightarrow> py_exception + bytes option" where
  "extract_generated_image response =
     (case candidates response of
        None \<Rightarrow> Inl (PyExc ''TypeError''
                  (''object of type '' @ quoted ''NoneType'' @ '' has no len()''))
      | Some [] \<Rightarrow> Inl (PyExc ''IndexError'' ''list index out of range'')
      | Some (c # _) \<Rightarrow>
          (case content c of
             None \<Rightarrow> Inl (PyExc ''AttributeError''
                     (quoted ''NoneType'' @ '' object has no attribute '' @ quoted ''parts''))
           | Some ct \<Rightarrow>
               (case parts ct of
                  None \<Rightarrow> Inl (PyExc ''TypeError'' (quoted ''NoneType'' @ '' object is not iterable''))
                | Some ps \<Rightarrow> Inr (scan_parts ps))))"

text \<open>The body of the \<open>try\<close> block of \<open>generate_image\<close>; \<open>Inl e\<close> is a raised exception.\<close>

definition generate_image_try ::
  "('c, 'p) genai \<Rightarrow> ('c, 'p) world \<Rightarrow> ImageGenerationRequest
   \<Rightarrow> (py_exception + ImageGenerationResponse) \<times> ('c, 'p) world" where
  "generate_image_try sdk w request =
     (case get_client sdk w of
        (Inl e, w1) \<Rightarrow> (Inl e, w1)
      | (Inr c, w1) \<Rightarrow>
          (case prepare_contents sdk request of
             Inl e \<Rightarrow> (Inl e, w1)
           | Inr contents \<Rightarrow>
               (let w2 = w1\<lparr>trace := trace w1 @
                           [Generate_content_call c (model_name (server w1)) contents]\<rparr> in
                case generate_content sdk c (model_name (server w1)) contents of
                  Inl e \<Rightarrow> (Inl e, w2)
                | Inr response \<Rightarrow>
                    (case extract_generated_image response of
                       Inl e \<Rightarrow> (Inl e, w2)
                     | Inr generated \<Rightarrow>
                         (if truthy generated then
                            (Inr \<lparr>success = True, generated_image_data = generated,
                                  error_message = None,
                                  model_used = model_name (server w1)\<rparr>, w2)
                          else
                            (Inr \<lparr>success = False, generated_image_data = None,
                                  error_message = Some ''No image data found in model response'',
                                  model_used = default_model_used\<rparr>, w2))))))"

text \<open>
  \<open>generate_image\<close>: the \<open>try\<close> block with its handler. The handler is
  \<open>except Exception\<close>, so an exception outside \<open>Exception\<close> leaves the function. The
  handler first prints a diagnostic line and then returns the failure response; the print
  is not inside any \<open>try\<close>, so an exception it raises leaves the function too. The
  argument \<open>print_line\<close> is the standard output as the handler sees it: \<open>None\<close> when the
  line is written, \<open>Some e\<close> when writing it raises \<open>e\<close>. (The diagnostic prints inside
  the \<open>try\<close> block are left out.) \<open>Inl e\<close> is an exception that leaves the function.
\<close>

definition generate_image ::
  "('c, 'p) genai \<Rightarrow> (string \<Rightarrow> py_exception option) \<Rightarrow> ('c, 'p) world
   \<Rightarrow> ImageGenerationRequest
   \<Rightarrow> (py_exception + ImageGenerationResponse) \<times> ('c, 'p) world" where
  "generate_image sdk print_line w request =
     (case generate_image_try sdk w request of
        (Inr response, w') \<Rightarrow> (Inr response, w')
      | (Inl e, w') \<Rightarrow>
          (if is_Exception e then
             (case print_line (''Nano Banana MCP: Error generating image: '' @ exc_str e) of
                Some e' \<Rightarrow> (Inl e', w')
              | None \<Rightarrow>
                  (Inr \<lparr>success = False, generated_image_data = None,
                        error_message = Some (''Image generation failed: '' @ exc_str e),
                        model_used = default_model_used\<rparr>, w'))
           else (Inl e, w')))"

text \<open>
  The first step of \<open>generate_image_from_base64\<close>: decode the input image if provided.
  \<open>Inl e\<close> is the exception raised by \<open>base64.b64decode\<close>.
\<close>

definition decode_input :: "string option \<Rightarrow> py_exception + bytes option" where
  "decode_input input_image_b64 =
     (case input_image_b64 of
        None \<Rightarrow> Inr None
      | Some s \<Rightarrow>
          (if s = [] then Inr None
           else (case b64decode s of Inl e \<Rightarrow> Inl e | Inr d \<Rightarrow> Inr (Some d))))"

text \<open>
  \<open>generate_image_from_base64\<close>. The handler around the decoding is \<open>except Exception\<close>;
  the call of \<open>generate_image\<close> is not inside any \<open>try\<close>. \<open>Inl e\<close> is an exception that
  leaves the function.
\<close>

definition generate_image_from_base64 ::
  "('c, 'p) genai \<Rightarrow> (string \<Rightarrow> py_exception option) \<Rightarrow> ('c, 'p) world
   \<Rightarrow> string \<Rightarrow> string option \<Rightarrow> string option
   \<Rightarrow> (py_exception + py_dict) \<times> ('c, 'p) world" where
  "generate_image_from_base64 sdk print_line w prompt_arg input_image_b64 mime_type =
     (case decode_input input_image_b64 of
        Inl e \<Rightarrow>
          (if is_Exception e then
             (Inr [''success'' \<mapsto> PyBool False,
                   ''error'' \<mapsto> PyStr (''Failed to decode base64 input image: '' @ exc_str e)],
              w)
           else (Inl e, w))
      | Inr image_data \<Rightarrow>
          (case generate_image sdk print_line w
                  \<lparr>prompt = prompt_arg, input_image_data = image_data,
                   input_image_mime_type = mime_type\<rparr> of
             (Inl e, w') \<Rightarrow> (Inl e, w')
           | (Inr response, w') \<Rightarrow>
               (let result = [''success'' \<mapsto> PyBool (success response),
                              ''model_used'' \<mapsto> PyStr (model_used response)] in
                if success response \<and> truthy (generated_image_data response) then
                  (case generated_image_data response of
                     Some g \<Rightarrow>
                       (Inr (result(''generated_image_b64'' \<mapsto> PyStr (b64encode g),
                                    ''generated_image_size'' \<mapsto> PyInt (int (length g)))), w')
                   | None \<Rightarrow> (Inr result, w'))
                else
                  (Inr (result(''error'' \<mapsto>
                     (case error_message response of
                        Some m \<Rightarrow> PyStr m | None \<Rightarrow> PyNone))), w'))))"

text \<open>
  The tool function \<open>generate_image_with_nano_banana\<close>: a fresh server from the
  environment, then one call. The result is the returned dictionary, or \<open>Inl e\<close> for the
  exception that leaves the function, together with the library calls made so far.
\<close>

definition generate_image_with_nano_banana ::
  "('c, 'p) genai \<Rightarrow> (string \<Rightarrow> py_exception option) \<Rightarrow> (string \<rightharpoonup> string)
   \<Rightarrow> ('c, 'p) sdk_call list \<Rightarrow> string \<Rightarrow> string option \<Rightarrow> string option
   \<Rightarrow> (py_exception + py_dict) \<times> ('c, 'p) sdk_call list" where
  "generate_image_with_nano_banana sdk print_line environ calls prompt_arg input_image_b64
       mime_type =
     (case NanoBananaMCPServer_init None environ of
        Inl e \<Rightarrow> (Inl e, calls)
      | Inr srv \<Rightarrow>
          (case generate_image_from_base64 sdk print_line \<lparr>server = srv, trace = calls\<rparr>
                  prompt_arg input_image_b64 mime_type of
             (result, w') \<Rightarrow> (result, trace w')))"

section \<open>A stub of the client library for concrete runs\<close>

text \<open>
  The client handle is the key it was built with, an input part is the pair of its bytes
  and media type, and \<open>generate_content\<close> gives the same outcome on every call.
\<close>

definition stub_genai :: "py_exception + GenerateContentResponse \<Rightarrow> (string, bytes \<times> string) genai" where
  "stub_genai outcome =
     \<lparr>Client = (\<lambda>k. Inr k),
      Part_from_bytes = (\<lambda>d m. Inr (d, m)),
      generate_content = (\<lambda>c m cs. outcome)\<rparr>"

definition image_part :: "bytes \<Rightarrow> Part" where
  "image_part d = Part (Has (Some (Blob (Has (Some d)))))"

definition text_part :: Part where
  "text_part = Part (Has None)"

definition fresh_world :: "(string, bytes \<times> string) world" where
  "fresh_world =
     \<lparr>server = \<lparr>api_key = ''k'', model_name = ''gemini-2.5-flash-image-preview'', client = None\<rparr>,
      trace = []\<rparr>"

definition bowl_request :: ImageGenerationRequest where
  "bowl_request =
     \<lparr>prompt = ''A ceramic bowl with patterns'', input_image_data = None,
      input_image_mime_type = None\<rparr>"

text \<open>
  One candidate with a text part, a part with empty inline data and two image parts,
  and a second candidate.
\<close>

definition image_response :: GenerateContentResponse where
  "image_response =
     GenerateContentResponse (Some
       [Candidate (Some (Content (Some
          [text_part, image_part [], image_part [1, 2, 3, 4, 255], image_part [9]]))),
        Candidate (Some (Content (Some [image_part [7]])))])"

text \<open>A standard output that takes every line, and one that is closed.\<close>

definition quiet_stdout :: "string \<Rightarrow> py_exception option" where
  "quiet_stdout line = None"

definition closed_stdout :: "string \<Rightarrow> py_exception option" where
  "closed_stdout line = Some (PyExc ''ValueError'' ''I/O operation on closed file.'')"

text \<open>A library in which every operation raises the given exception.\<close>

definition broken_genai :: "py_exception \<Rightarrow> (string, bytes \<times> string) genai" where
  "broken_genai e =
     \<lparr>Client = (\<lambda>k. Inl e),
      Part_from_bytes = (\<lambda>d m. Inl e),
      generate_content = (\<lambda>c m cs. Inl e)\<rparr>"

text \<open>A server whose client has already been created.\<close>

definition warm_world :: "(string, bytes \<times> string) world" where
  "warm_world =
     \<lparr>server = \<lparr>api_key = ''k'', model_name = ''gemini-2.5-flash-image-preview'',
                client = Some ''k''\<rparr>,
      trace = [Client_call ''k'']\<rparr>"

definition variation_request :: ImageGenerationRequest where
  "variation_request =
     \<lparr>prompt = ''Top-down view of this scene'', input_image_data = Some [1, 2, 3],
      input_image_mime_type = None\<rparr>"

definition refused :: py_exception where
  "refused = PyExc ''ConnectionError'' ''connection refused''"

text \<open>The interrupt of a blocking call from the keyboard.\<close>

definition interrupted :: py_exception where
  "interrupted = PyBaseExc ''KeyboardInterrupt'' []"

text \<open>A response without candidates.\<close>

definition no_candidates_response :: GenerateContentResponse where
  "no_candidates_response = GenerateContentResponse (Some [])"

text \<open>
  A first candidate none of whose parts carries non-empty inline data, in each of the
  ways the loop tests for, followed by a candidate with an image.
\<close>

definition text_first_response :: GenerateContentResponse where
  "text_first_response =
     GenerateContentResponse (Some
       [Candidate (Some (Content (Some
          [text_part, Part Absent, Part (Has (Some (Blob Absent))),
           Part (Has (Some (Blob (Has None)))), Part (Has (Some (Blob (Has (Some [])))))]))),
        Candidate (Some (Content (Some [image_part [7]])))])"

section \<open>Base64: decoding an encoding gives the bytes back\<close>

lemma index_of_nth: "distinct xs \<Longrightarrow> n < length xs \<Longrightarrow> index_of (xs ! n) xs = Some n"
proof (induction xs arbitrary: n)
  case Nil
  then show ?case by simp
next
  case (Cons x xs)
  show ?case
  proof (cases n)
    case 0
    then show ?thesis by simp
  next
    case (Suc m)
    with Cons.prems have "m < length xs" "distinct xs" "xs ! m \<noteq> x" by auto
    with Cons.IH [of m] Suc show ?thesis by auto
  qed
qed

lemma length_table: "length table_b2a_base64 = 64"
  by (simp add: table_b2a_base64_def)

lemma distinct_table: "distinct table_b2a_base64"
  by code_simp

lemma pad_not_in_table: "CHR ''='' \<notin> set table_b2a_base64"
  by code_simp

lemma table_ascii: "list_all (\<lambda>c. (of_char c :: nat) < 128) table_b2a_base64"
  by code_simp

lemma b2a_in_table: "n < 64 \<Longrightarrow> b2a n \<in> set table_b2a_base64"
  by (simp add: b2a_def length_table)

lemma a2b_b2a: "n < 64 \<Longrightarrow> table_a2b_base64 (b2a n) = Some n"
  by (simp add: table_a2b_base64_def b2a_def index_of_nth distinct_table length_table)

lemma b2a_not_pad: "n < 64 \<Longrightarrow> b2a n \<noteq> CHR ''=''"
  using pad_not_in_table b2a_in_table [of n] by metis

lemma b2a_ascii: "n < 64 \<Longrightarrow> (of_char (b2a n) :: nat) < 128"
  using table_ascii b2a_in_table [of n] by (simp add: list_all_iff)

lemma a2b_loop_data:
  "v < 64 \<Longrightarrow> a2b_loop q l p out (b2a v # rest) =
     (if q = 0 then a2b_loop 1 v 0 out rest
      else if q = 1 then a2b_loop 2 (v mod 16) 0 (out @ [of_nat (l * 4 + v div 16)]) rest
      else if q = 2 then a2b_loop 3 (v mod 4) 0 (out @ [of_nat (l * 16 + v div 4)]) rest
      else a2b_loop 0 0 0 (out @ [of_nat (l * 64 + v)]) rest)"
  by (simp add: a2b_b2a b2a_not_pad)

lemma unat_byte_lt: "unat (a :: byte) < 256"
  using unsigned_less [of a, where ?'a = nat] by simp

lemma sextet_bounds:
  fixes a b c :: nat
  assumes "a < 256" "b < 256" "c < 256"
  shows "a div 4 < 64" "a mod 4 * 16 + b div 16 < 64" "b mod 16 * 4 + c div 64 < 64"
    "c mod 64 < 64" "a mod 4 * 16 < 64" "b mod 16 * 4 < 64"
proof -
  have a4: "a mod 4 < 4" and b16: "b mod 16 < 16" by simp_all
  have bd: "b div 16 < 16" using assms(2) by (simp add: less_mult_imp_div_less)
  have cd: "c div 64 < 4" using assms(3) by (simp add: less_mult_imp_div_less)
  show "a div 4 < 64" using assms(1) by (simp add: less_mult_imp_div_less)
  show "a mod 4 * 16 + b div 16 < 64" using a4 bd by linarith
  show "b mod 16 * 4 + c div 64 < 64" using b16 cd by linarith
  show "c mod 64 < 64" by simp
  show "a mod 4 * 16 < 64" using a4 by linarith
  show "b mod 16 * 4 < 64" using b16 by linarith
qed

lemma div_mod_join:
  fixes x q :: nat
  shows "q < 16 \<Longrightarrow> (x * 16 + q) div 16 = x" "q < 16 \<Longrightarrow> (x * 16 + q) mod 16 = q"
    "q < 4 \<Longrightarrow> (x * 4 + q) div 4 = x" "q < 4 \<Longrightarrow> (x * 4 + q) mod 4 = q"
  by simp_all

lemma sextet_join:
  fixes a b c :: nat
  assumes "a < 256" "b < 256" "c < 256"
  shows "a div 4 * 4 + (a mod 4 * 16 + b div 16) div 16 = a"
    "(a mod 4 * 16 + b div 16) mod 16 * 16 + (b mod 16 * 4 + c div 64) div 4 = b"
    "(b mod 16 * 4 + c div 64) mod 4 * 64 + c mod 64 = c"
    "a div 4 * 4 + (a mod 4 * 16) div 16 = a"
    "(a mod 4 * 16 + b div 16) mod 16 * 16 + (b mod 16 * 4) div 4 = b"
proof -
  have bd: "b div 16 < 16" using assms(2) by (simp add: less_mult_imp_div_less)
  have cd: "c div 64 < 4" using assms(3) by (simp add: less_mult_imp_div_less)
  show "a div 4 * 4 + (a mod 4 * 16 + b div 16) div 16 = a"
    using bd by (simp add: div_mod_join)
  show "(a mod 4 * 16 + b div 16) mod 16 * 16 + (b mod 16 * 4 + c div 64) div 4 = b"
    using bd cd by (simp add: div_mod_join)
  show "(b mod 16 * 4 + c div 64) mod 4 * 64 + c mod 64 = c"
    using cd by (simp add: div_mod_join)
  show "a div 4 * 4 + (a mod 4 * 16) div 16 = a" by simp
  show "(a mod 4 * 16 + b div 16) mod 16 * 16 + (b mod 16 * 4) div 4 = b"
    using bd by (simp add: div_mod_join)
qed



lemma a2b_loop_quad:
  assumes "v1 < 64" "v2 < 64" "v3 < 64" "v4 < 64"
  shows "a2b_loop 0 l p out (b2a v1 # b2a v2 # b2a v3 # b2a v4 # rest) =
    a2b_loop 0 0 0 (out @ [of_nat (v1 * 4 + v2 div 16), of_nat (v2 mod 16 * 16 + v3 div 4),
                           of_nat (v3 mod 4 * 64 + v4)]) rest"
  by (simp only: a2b_loop_data assms if_True if_False append_assoc append_Cons append_Nil
      one_neq_zero numeral_eq_one_iff numeral_eq_iff one_eq_numeral_iff zero_neq_numeral
      semiring_norm refl)

lemma a2b_loop_pad:
  "a2b_loop q l p out (CHR ''='' # rest) =
     (if 2 \<le> q then (if 4 \<le> q + (p + 1) then Done out else a2b_loop q l (p + 1) out rest)
      else a2b_loop q l p out rest)"
  by simp

lemma a2b_loop_pair_padded:
  assumes "v1 < 64" "v2 < 64"
  shows "a2b_loop 0 l p out [b2a v1, b2a v2, CHR ''='', CHR ''=''] =
    Done (out @ [of_nat (v1 * 4 + v2 div 16)])"
proof -
  have "a2b_loop 0 l p out [b2a v1, b2a v2, CHR ''='', CHR ''=''] =
      a2b_loop 1 v1 0 out [b2a v2, CHR ''='', CHR ''='']"
    using assms(1) by (simp only: a2b_loop_data if_True refl)
  also have "\<dots> = a2b_loop 2 (v2 mod 16) 0 (out @ [of_nat (v1 * 4 + v2 div 16)])
      [CHR ''='', CHR ''='']"
    using assms(2) by (simp only: a2b_loop_data) simp
  also have "\<dots> = a2b_loop 2 (v2 mod 16) 1 (out @ [of_nat (v1 * 4 + v2 div 16)]) [CHR ''='']"
    by (simp only: a2b_loop_pad) simp
  also have "\<dots> = Done (out @ [of_nat (v1 * 4 + v2 div 16)])"
    by (simp only: a2b_loop_pad) simp
  finally show ?thesis .
qed

lemma a2b_loop_triple_padded:
  assumes "v1 < 64" "v2 < 64" "v3 < 64"
  shows "a2b_loop 0 l p out [b2a v1, b2a v2, b2a v3, CHR ''=''] =
    Done (out @ [of_nat (v1 * 4 + v2 div 16), of_nat (v2 mod 16 * 16 + v3 div 4)])"
proof -
  have "a2b_loop 0 l p out [b2a v1, b2a v2, b2a v3, CHR ''=''] =
      a2b_loop 1 v1 0 out [b2a v2, b2a v3, CHR ''='']"
    using assms(1) by (simp only: a2b_loop_data if_True refl)
  also have "\<dots> = a2b_loop 2 (v2 mod 16) 0 (out @ [of_nat (v1 * 4 + v2 div 16)])
      [b2a v3, CHR ''='']"
    using assms(2) by (simp only: a2b_loop_data) simp
  also have "\<dots> = a2b_loop 3 (v3 mod 4) 0
      (out @ [of_nat (v1 * 4 + v2 div 16), of_nat (v2 mod 16 * 16 + v3 div 4)]) [CHR ''='']"
    using assms(3) by (simp only: a2b_loop_data) simp
  also have "\<dots> = Done (out @ [of_nat (v1 * 4 + v2 div 16), of_nat (v2 mod 16 * 16 + v3 div 4)])"
    by (simp only: a2b_loop_pad) simp
  finally show ?thesis .
qed


lemma byte_of_unat: "(of_nat (unat (a :: byte)) :: byte) = a"
  by simp

lemma a2b_loop_group:
  "a2b_loop 0 l p out (b2a_base64 (a # b # c # rest)) =
     a2b_loop 0 0 0 (out @ [a, b, c]) (b2a_base64 rest)"
proof -
  note bounds = sextet_bounds [OF unat_byte_lt [of a] unat_byte_lt [of b] unat_byte_lt [of c]]
  note joins = sextet_join [OF unat_byte_lt [of a] unat_byte_lt [of b] unat_byte_lt [of c]]
  show ?thesis
    by (simp only: b2a_base64.simps append_Cons append_Nil
        a2b_loop_quad [OF bounds(1) bounds(2) bounds(3) bounds(4)] joins byte_of_unat)
qed

lemma a2b_loop_one:
  "a2b_loop 0 l p out (b2a_base64 [a]) = Done (out @ [a])"
proof -
  note bounds = sextet_bounds [OF unat_byte_lt [of a] unat_byte_lt [of a] unat_byte_lt [of a]]
  note joins = sextet_join [OF unat_byte_lt [of a] unat_byte_lt [of a] unat_byte_lt [of a]]
  show ?thesis
    by (simp only: b2a_base64.simps a2b_loop_pair_padded [OF bounds(1) bounds(5)]
        joins byte_of_unat)
qed

lemma a2b_loop_two:
  "a2b_loop 0 l p out (b2a_base64 [a, b]) = Done (out @ [a, b])"
proof -
  note bounds = sextet_bounds [OF unat_byte_lt [of a] unat_byte_lt [of b] unat_byte_lt [of b]]
  note joins = sextet_join [OF unat_byte_lt [of a] unat_byte_lt [of b] unat_byte_lt [of b]]
  show ?thesis
    by (simp only: b2a_base64.simps a2b_loop_triple_padded [OF bounds(1) bounds(2) bounds(6)]
        joins byte_of_unat)
qed

lemma a2b_loop_b2a_base64:
  "a2b_loop 0 l p out (b2a_base64 xs) = Done (out @ xs) \<or>
   a2b_loop 0 l p out (b2a_base64 xs) = Exhausted 0 (out @ xs)"
proof (induction xs arbitrary: l p out rule: b2a_base64.induct)
  case 1
  show ?case by simp
next
  case (2 a)
  show ?case by (simp only: a2b_loop_one simp_thms)
next
  case (3 a b)
  show ?case by (simp only: a2b_loop_two simp_thms)
next
  case (4 a b c rest)
  from "4.IH" [of 0 0 "out @ [a, b, c]"] show ?case
    by (simp only: a2b_loop_group append_assoc append_Cons append_Nil)
qed

lemma a2b_base64_b2a_base64: "a2b_base64 (b2a_base64 xs) = Inr xs"
  using a2b_loop_b2a_base64 [of 0 0 "[]" xs] by (auto simp: a2b_base64_def)

lemma b2a_base64_ascii: "c \<in> set (b2a_base64 xs) \<Longrightarrow> (of_char c :: nat) < 128"
proof (induction xs rule: b2a_base64.induct)
  case 1
  then show ?case by simp
next
  case (2 a)
  note bounds = sextet_bounds [OF unat_byte_lt [of a] unat_byte_lt [of a] unat_byte_lt [of a]]
  from 2 have "c = b2a (unat a div 4) \<or> c = b2a (unat a mod 4 * 16) \<or> c = CHR ''=''"
    by auto
  then show ?case using b2a_ascii [OF bounds(1)] b2a_ascii [OF bounds(5)] by auto
next
  case (3 a b)
  note bounds = sextet_bounds [OF unat_byte_lt [of a] unat_byte_lt [of b] unat_byte_lt [of b]]
  from 3 have "c = b2a (unat a div 4) \<or> c = b2a (unat a mod 4 * 16 + unat b div 16)
      \<or> c = b2a (unat b mod 16 * 4) \<or> c = CHR ''=''"
    by auto
  then show ?case
    using b2a_ascii [OF bounds(1)] b2a_ascii [OF bounds(2)] b2a_ascii [OF bounds(6)] by auto
next
  case (4 a b c' rest)
  note bounds = sextet_bounds [OF unat_byte_lt [of a] unat_byte_lt [of b] unat_byte_lt [of c']]
  from "4.prems" have "c = b2a (unat a div 4) \<or> c = b2a (unat a mod 4 * 16 + unat b div 16)
      \<or> c = b2a (unat b mod 16 * 4 + unat c' div 64) \<or> c = b2a (unat c' mod 64)
      \<or> c \<in> set (b2a_base64 rest)"
    by auto
  then show ?case
    using b2a_ascii [OF bounds(1)] b2a_ascii [OF bounds(2)] b2a_ascii [OF bounds(3)]
      b2a_ascii [OF bounds(4)] "4.IH" by auto
qed

lemma b64decode_b64encode: "b64decode (b64encode xs) = Inr xs"
proof -
  have "\<not> list_ex (\<lambda>c. 128 \<le> (of_char c :: nat)) (b2a_base64 xs)"
    using b2a_base64_ascii [of _ xs] by (auto simp: list_ex_iff not_le)
  then show ?thesis
    by (simp add: b64decode_def b64encode_def a2b_base64_b2a_base64)
qed

section \<open>The server: helper facts\<close>

lemma stub_genai_sel:
  "Client (stub_genai r) k = Inr k"
  "Part_from_bytes (stub_genai r) d m = Inr (d, m)"
  "generate_content (stub_genai r) c m cs = r"
  by (simp_all add: stub_genai_def)

lemma broken_genai_sel:
  "Client (broken_genai e) k = Inl e"
  "Part_from_bytes (broken_genai e) d m = Inl e"
  "generate_content (broken_genai e) c m cs = Inl e"
  by (simp_all add: broken_genai_def)

lemmas run_defs = generate_image_def generate_image_try_def get_client_def prepare_contents_def
  extract_generated_image_def default_model_used_def

lemmas stub_defs = stub_genai_sel fresh_world_def bowl_request_def image_response_def
  image_part_def text_part_def inline_image_def quiet_stdout_def

lemma get_client_cases:
  "get_client sdk w =
     (case client (server w) of
        Some c \<Rightarrow> (Inr c, w)
      | None \<Rightarrow>
          (case Client sdk (api_key (server w)) of
             Inl e \<Rightarrow> (Inl e, w\<lparr>trace := trace w @ [Client_call (api_key (server w))]\<rparr>)
           | Inr c \<Rightarrow>
               (Inr c, w\<lparr>trace := trace w @ [Client_call (api_key (server w))],
                         server := (server w)\<lparr>client := Some c\<rparr>\<rparr>)))"
  by (simp add: get_client_def Let_def split: option.splits sum.splits)

lemma get_client_fresh_stub: "get_client (stub_genai r) fresh_world = (Inr ''k'', warm_world)"
  by (simp add: get_client_def fresh_world_def warm_world_def stub_genai_sel)

lemma get_client_warm: "get_client sdk warm_world = (Inr ''k'', warm_world)"
  by (simp add: get_client_def warm_world_def)

lemma prepare_contents_bowl:
  "prepare_contents sdk bowl_request = Inr [Text ''A ceramic bowl with patterns'']"
  by (simp add: prepare_contents_def bowl_request_def)

lemma model_name_warm: "model_name (server warm_world) = ''gemini-2.5-flash-image-preview''"
  by (simp add: warm_world_def)

lemma generate_image_caught:
  "generate_image_try sdk w request = (Inl e, w') \<Longrightarrow> is_Exception e \<Longrightarrow>
   print_line (''Nano Banana MCP: Error generating image: '' @ exc_str e) = None \<Longrightarrow>
   generate_image sdk print_line w request =
     (Inr \<lparr>success = False, generated_image_data = None,
           error_message = Some (''Image generation failed: '' @ exc_str e),
           model_used = default_model_used\<rparr>, w')"
  by (simp add: generate_image_def)

lemma generate_image_try_stages:
  "client (server w) = None \<and> Client sdk (api_key (server w)) = Inl e \<Longrightarrow>
     fst (generate_image_try sdk w request) = Inl e"
  "get_client sdk w = (Inr c, w1) \<and> prepare_contents sdk request = Inl e \<Longrightarrow>
     fst (generate_image_try sdk w request) = Inl e"
  "get_client sdk w = (Inr c, w1) \<and> prepare_contents sdk request = Inr contents \<and>
   generate_content sdk c (model_name (server w1)) contents = Inl e \<Longrightarrow>
     fst (generate_image_try sdk w request) = Inl e"
  "get_client sdk w = (Inr c, w1) \<and> prepare_contents sdk request = Inr contents \<and>
   generate_content sdk c (model_name (server w1)) contents = Inr response \<and>
   extract_generated_image response = Inl e \<Longrightarrow>
     fst (generate_image_try sdk w request) = Inl e"
  by (simp_all add: generate_image_try_def get_client_cases)

lemma generate_image_of_try:
  "fst (generate_image_try sdk w request) = Inl e \<Longrightarrow>
   fst (generate_image sdk print_line w request) =
     (if is_Exception e then
        (case print_line (''Nano Banana MCP: Error generating image: '' @ exc_str e) of
           Some e' \<Rightarrow> Inl e'
         | None \<Rightarrow>
             Inr \<lparr>success = False, generated_image_data = None,
                  error_message = Some (''Image generation failed: '' @ exc_str e),
                  model_used = default_model_used\<rparr>)
      else Inl e)"
  by (cases "generate_image_try sdk w request")
     (simp add: generate_image_def split: option.splits)

section \<open>The claim about exceptions in \<open>generate_image\<close>\<close>

text \<open>
  Claim C1 fails as stated: an exception that is not an instance of \<open>Exception\<close> is not
  caught. A \<open>KeyboardInterrupt\<close> raised by the remote call leaves \<open>generate_image\<close>.
\<close>

theorem keyboard_interrupt_escapes_counterexample:
  "generate_content (broken_genai interrupted) ''k'' (model_name (server warm_world))
     [Text ''A ceramic bowl with patterns''] = Inl (PyBaseExc ''KeyboardInterrupt'' []) \<and>
   generate_image (broken_genai interrupted) quiet_stdout warm_world bowl_request =
     (Inl (PyBaseExc ''KeyboardInterrupt'' []),
      warm_world\<lparr>trace := [Client_call ''k'',
         Generate_content_call ''k'' ''gemini-2.5-flash-image-preview''
           [Text ''A ceramic bowl with patterns'']]\<rparr>)"
  by (simp add: run_defs broken_genai_sel interrupted_def warm_world_def bowl_request_def)

text \<open>
  Claim C1, amended. An exception that is an instance of \<open>Exception\<close> and is raised while
  the client is acquired, while the contents are assembled, by the remote call or while
  the response is read (in general, one that leaves the \<open>try\<close> block) is caught: when the
  handler's diagnostic line is printed, \<open>generate_image\<close> returns a response with
  \<open>success = False\<close> and the error message \<open>Image generation failed: \<close> followed by the
  text of the exception. An exception outside \<open>Exception\<close> leaves \<open>generate_image\<close>
  unchanged, and so does an exception raised by the handler's print.
\<close>

theorem generate_image_catches_exceptions:
  "(is_Exception e \<and>
    print_line (''Nano Banana MCP: Error generating image: '' @ exc_str e) = None \<and>
    client (server w) = None \<and> Client sdk (api_key (server w)) = Inl e \<longrightarrow>
      fst (generate_image sdk print_line w request) =
        Inr \<lparr>success = False, generated_image_data = None,
             error_message = Some (''Image generation failed: '' @ exc_str e),
             model_used = default_model_used\<rparr>) \<and>
   (is_Exception e \<and>
    print_line (''Nano Banana MCP: Error generating image: '' @ exc_str e) = None \<and>
    get_client sdk w = (Inr c, w1) \<and> prepare_contents sdk request = Inl e \<longrightarrow>
      fst (generate_image sdk print_line w request) =
        Inr \<lparr>success = False, generated_image_data = None,
             error_message = Some (''Image generation failed: '' @ exc_str e),
             model_used = default_model_used\<rparr>) \<and>
   (is_Exception e \<and>
    print_line (''Nano Banana MCP: Error generating image: '' @ exc_str e) = None \<and>
    get_client sdk w = (Inr c, w1) \<and> prepare_contents sdk request = Inr contents \<and>
    generate_content sdk c (model_name (server w1)) contents = Inl e \<longrightarrow>
      fst (generate_image sdk print_line w request) =
        Inr \<lparr>success = False, generated_image_data = None,
             error_message = Some (''Image generation failed: '' @ exc_str e),
             model_used = default_model_used\<rparr>) \<and>
   (is_Exception e \<and>
    print_line (''Nano Banana MCP: Error generating image: '' @ exc_str e) = None \<and>
    get_client sdk w = (Inr c, w1) \<and> prepare_contents sdk request = Inr contents \<and>
    generate_content sdk c (model_name (server w1)) contents = Inr response \<and>
    extract_generated_image response = Inl e \<longrightarrow>
      fst (generate_image sdk print_line w request) =
        Inr \<lparr>success = False, generated_image_data = None,
             error_message = Some (''Image generation failed: '' @ exc_str e),
             model_used = default_model_used\<rparr>) \<and>
   (is_Exception e \<and>
    print_line (''Nano Banana MCP: Error generating image: '' @ exc_str e) = None \<and>
    generate_image_try sdk w request = (Inl e, w') \<longrightarrow>
      generate_image sdk print_line w request =
        (Inr \<lparr>success = False, generated_image_data = None,
              error_message = Some (''Image generation failed: '' @ exc_str e),
              model_used = default_model_used\<rparr>, w')) \<and>
   (\<not> is_Exception e \<and> generate_image_try sdk w request = (Inl e, w') \<longrightarrow>
      generate_image sdk print_line w request = (Inl e, w')) \<and>
   (is_Exception e \<and>
    print_line (''Nano Banana MCP: Error generating image: '' @ exc_str e) = Some e' \<and>
    generate_image_try sdk w request = (Inl e, w') \<longrightarrow>
      generate_image sdk print_line w request = (Inl e', w'))"
proof (intro conjI impI)
  assume a: "is_Exception e \<and>
    print_line (''Nano Banana MCP: Error generating image: '' @ exc_str e) = None \<and>
    client (server w) = None \<and> Client sdk (api_key (server w)) = Inl e"
  then have "fst (generate_image_try sdk w request) = Inl e"
    by (intro generate_image_try_stages(1)) simp
  with a show "fst (generate_image sdk print_line w request) =
        Inr \<lparr>success = False, generated_image_data = None,
             error_message = Some (''Image generation failed: '' @ exc_str e),
             model_used = default_model_used\<rparr>"
    by (simp add: generate_image_of_try)
next
  assume a: "is_Exception e \<and>
    print_line (''Nano Banana MCP: Error generating image: '' @ exc_str e) = None \<and>
    get_client sdk w = (Inr c, w1) \<and> prepare_contents sdk request = Inl e"
  then have "fst (generate_image_try sdk w request) = Inl e"
    by (intro generate_image_try_stages(2) [of sdk w c w1]) simp
  with a show "fst (generate_image sdk print_line w request) =
        Inr \<lparr>success = False, generated_image_data = None,
             error_message = Some (''Image generation failed: '' @ exc_str e),
             model_used = default_model_used\<rparr>"
    by (simp add: generate_image_of_try)
next
  assume a: "is_Exception e \<and>
    print_line (''Nano Banana MCP: Error generating image: '' @ exc_str e) = None \<and>
    get_client sdk w = (Inr c, w1) \<and> prepare_contents sdk request = Inr contents \<and>
    generate_content sdk c (model_name (server w1)) contents = Inl e"
  then have "fst (generate_image_try sdk w request) = Inl e"
    by (intro generate_image_try_stages(3) [of sdk w c w1 request contents]) simp
  with a show "fst (generate_image sdk print_line w request) =
        Inr \<lparr>success = False, generated_image_data = None,
             error_message = Some (''Image generation failed: '' @ exc_str e),
             model_used = default_model_used\<rparr>"
    by (simp add: generate_image_of_try)
next
  assume a: "is_Exception e \<and>
    print_line (''Nano Banana MCP: Error generating image: '' @ exc_str e) = None \<and>
    get_client sdk w = (Inr c, w1) \<and> prepare_contents sdk request = Inr contents \<and>
    generate_content sdk c (model_name (server w1)) contents = Inr response \<and>
    extract_generated_image response = Inl e"
  then have "fst (generate_image_try sdk w request) = Inl e"
    by (intro generate_image_try_stages(4) [of sdk w c w1 request contents response]) simp
  with a show "fst (generate_image sdk print_line w request) =
        Inr \<lparr>success = False, generated_image_data = None,
             error_message = Some (''Image generation failed: '' @ exc_str e),
             model_used = default_model_used\<rparr>"
    by (simp add: generate_image_of_try)
next
  assume "is_Exception e \<and>
    print_line (''Nano Banana MCP: Error generating image: '' @ exc_str e) = None \<and>
    generate_image_try sdk w request = (Inl e, w')"
  then show "generate_image sdk print_line w request =
        (Inr \<lparr>success = False, generated_image_data = None,
              error_message = Some (''Image generation failed: '' @ exc_str e),
              model_used = default_model_used\<rparr>, w')"
    by (simp add: generate_image_def)
next
  assume "\<not> is_Exception e \<and> generate_image_try sdk w request = (Inl e, w')"
  then show "generate_image sdk print_line w request = (Inl e, w')"
    by (simp add: generate_image_def)
next
  assume "is_Exception e \<and>
    print_line (''Nano Banana MCP: Error generating image: '' @ exc_str e) = Some e' \<and>
    generate_image_try sdk w request = (Inl e, w')"
  then show "generate_image sdk print_line w request = (Inl e', w')"
    by (simp add: generate_image_def)
qed


theorem generate_image_catches_exceptions_witness:
  "fst (generate_image (broken_genai refused) quiet_stdout fresh_world bowl_request) =
     Inr \<lparr>success = False, generated_image_data = None,
          error_message = Some ''Image generation failed: connection refused'',
          model_used = ''gemini-2.5-flash-image-preview''\<rparr> \<and>
   fst (generate_image (broken_genai refused) quiet_stdout warm_world variation_request) =
     Inr \<lparr>success = False, generated_image_data = None,
          error_message = Some ''Image generation failed: connection refused'',
          model_used = ''gemini-2.5-flash-image-preview''\<rparr> \<and>
   fst (generate_image (broken_genai refused) quiet_stdout warm_world bowl_request) =
     Inr \<lparr>success = False, generated_image_data = None,
          error_message = Some ''Image generation failed: connection refused'',
          model_used = ''gemini-2.5-flash-image-preview''\<rparr> \<and>
   fst (generate_image (stub_genai (Inr (GenerateContentResponse None))) quiet_stdout
          warm_world bowl_request) =
     Inr \<lparr>success = False, generated_image_data = None,
          error_message = Some (''Image generation failed: object of type '' @
            quoted ''NoneType'' @ '' has no len()''),
          model_used = ''gemini-2.5-flash-image-preview''\<rparr> \<and>
   fst (generate_image (broken_genai interrupted) quiet_stdout warm_world bowl_request) =
     Inl interrupted \<and>
   fst (generate_image (broken_genai refused) closed_stdout warm_world bowl_request) =
     Inl (PyExc ''ValueError'' ''I/O operation on closed file.'')"
proof -
  let ?failed = "Inr \<lparr>success = False, generated_image_data = None,
      error_message = Some (''Image generation failed: '' @ exc_str refused),
      model_used = default_model_used\<rparr> :: py_exception + ImageGenerationResponse"
  have ex: "is_Exception refused" "\<not> is_Exception interrupted"
    by (simp_all add: refused_def interrupted_def)
  have ex3: "is_Exception
      (PyExc ''TypeError'' (''object of type '' @ quoted ''NoneType'' @ '' has no len()''))"
    by simp
  have q: "quiet_stdout line = None" for line
    by (simp add: quiet_stdout_def)
  have cl: "closed_stdout line = Some (PyExc ''ValueError'' ''I/O operation on closed file.'')"
    for line
    by (simp add: closed_stdout_def)
  have h1: "client (server fresh_world) = None \<and>
      Client (broken_genai refused) (api_key (server fresh_world)) = Inl refused"
    by (simp add: fresh_world_def broken_genai_sel)
  have h2: "prepare_contents (broken_genai refused) variation_request = Inl refused"
    by (simp add: prepare_contents_def variation_request_def broken_genai_sel)
  have h3: "generate_content (broken_genai x) ''k'' (model_name (server warm_world))
      [Text ''A ceramic bowl with patterns''] = Inl x" for x
    by (simp add: broken_genai_sel)
  have h4: "generate_content (stub_genai (Inr (GenerateContentResponse None))) ''k''
      (model_name (server warm_world)) [Text ''A ceramic bowl with patterns''] =
      Inr (GenerateContentResponse None)"
    by (simp add: stub_genai_sel)
  have h4': "extract_generated_image (GenerateContentResponse None) =
      Inl (PyExc ''TypeError'' (''object of type '' @ quoted ''NoneType'' @ '' has no len()''))"
    by (simp add: extract_generated_image_def)
  have tr: "generate_image_try (broken_genai x) warm_world bowl_request =
      (Inl x, warm_world\<lparr>trace := trace warm_world @
         [Generate_content_call ''k'' (model_name (server warm_world))
            [Text ''A ceramic bowl with patterns'']]\<rparr>)" for x
    by (simp add: generate_image_try_def get_client_warm prepare_contents_bowl
        broken_genai_sel)
  have s1: "fst (generate_image (broken_genai refused) quiet_stdout fresh_world bowl_request) =
      ?failed"
    using generate_image_catches_exceptions
      [of refused quiet_stdout fresh_world "broken_genai refused" bowl_request] ex(1) q h1
    by blast
  have s2: "fst (generate_image (broken_genai refused) quiet_stdout warm_world
      variation_request) = ?failed"
    using generate_image_catches_exceptions
      [of refused quiet_stdout warm_world "broken_genai refused" variation_request
          "''k''" warm_world] ex(1) q get_client_warm h2
    by blast
  have s3: "fst (generate_image (broken_genai refused) quiet_stdout warm_world bowl_request) =
      ?failed"
    using generate_image_catches_exceptions
      [of refused quiet_stdout warm_world "broken_genai refused" bowl_request
          "''k''" warm_world "[Text ''A ceramic bowl with patterns'']"]
      ex(1) q get_client_warm prepare_contents_bowl h3
    by blast
  have s4: "fst (generate_image (stub_genai (Inr (GenerateContentResponse None))) quiet_stdout
      warm_world bowl_request) =
      Inr \<lparr>success = False, generated_image_data = None,
          error_message = Some (''Image generation failed: '' @ exc_str
            (PyExc ''TypeError'' (''object of type '' @ quoted ''NoneType'' @ '' has no len()''))),
          model_used = default_model_used\<rparr>"
    using generate_image_catches_exceptions
      [of "PyExc ''TypeError'' (''object of type '' @ quoted ''NoneType'' @ '' has no len()'')"
          quiet_stdout warm_world "stub_genai (Inr (GenerateContentResponse None))"
          bowl_request "''k''" warm_world "[Text ''A ceramic bowl with patterns'']"
          "GenerateContentResponse None"]
      ex3 q get_client_warm prepare_contents_bowl h4 h4'
    by blast
  have s5: "generate_image (broken_genai interrupted) quiet_stdout warm_world bowl_request =
      (Inl interrupted, warm_world\<lparr>trace := trace warm_world @
         [Generate_content_call ''k'' (model_name (server warm_world))
            [Text ''A ceramic bowl with patterns'']]\<rparr>)"
    using generate_image_catches_exceptions
      [of interrupted quiet_stdout warm_world "broken_genai interrupted" bowl_request
          _ _ _ _ "warm_world\<lparr>trace := trace warm_world @
         [Generate_content_call ''k'' (model_name (server warm_world))
            [Text ''A ceramic bowl with patterns'']]\<rparr>"]
      ex(2) tr
    by blast
  have s6: "generate_image (broken_genai refused) closed_stdout warm_world bowl_request =
      (Inl (PyExc ''ValueError'' ''I/O operation on closed file.''),
       warm_world\<lparr>trace := trace warm_world @
         [Generate_content_call ''k'' (model_name (server warm_world))
            [Text ''A ceramic bowl with patterns'']]\<rparr>)"
    using generate_image_catches_exceptions
      [of refused closed_stdout warm_world "broken_genai refused" bowl_request
          _ _ _ _ "warm_world\<lparr>trace := trace warm_world @
         [Generate_content_call ''k'' (model_name (server warm_world))
            [Text ''A ceramic bowl with patterns'']]\<rparr>"
          "PyExc ''ValueError'' ''I/O operation on closed file.''"]
      ex(1) cl tr
    by blast
  from s1 s2 s3 s4 s5 s6 show ?thesis
    by (simp add: refused_def default_model_used_def)
qed

section \<open>The shape of a response\<close>

lemma scan_parts_nonempty: "scan_parts ps = Some d \<Longrightarrow> d \<noteq> []"
  by (induction ps) (auto simp: inline_image_def split: option.splits attribute.splits if_splits)

lemma generate_image_try_shape:
  "generate_image_try sdk w request = (Inr r, w') \<Longrightarrow>
     (success r \<and> (\<exists>d. generated_image_data r = Some d \<and> d \<noteq> []) \<and> error_message r = None) \<or>
     (\<not> success r \<and> (\<exists>m. error_message r = Some m \<and> m \<noteq> []) \<and> generated_image_data r = None)"
  by (cases "get_client sdk w")
     (auto simp: generate_image_try_def Let_def
           split: sum.splits if_splits option.splits elim: truthy.elims)

lemma generate_image_shape:
  assumes "generate_image sdk print_line w request = (Inr r, w')"
  shows "(success r \<and> (\<exists>d. generated_image_data r = Some d \<and> d \<noteq> []) \<and>
          error_message r = None) \<noteq>
         (\<not> success r \<and> (\<exists>m. error_message r = Some m \<and> m \<noteq> []) \<and>
          generated_image_data r = None)"
proof (cases "generate_image_try sdk w request")
  case (Pair res w'')
  show ?thesis
  proof (cases res)
    case (Inl e)
    with Pair assms show ?thesis
      by (auto simp: generate_image_def split: if_splits option.splits)
  next
    case (Inr r')
    with Pair assms have "r' = r" by (simp add: generate_image_def)
    with generate_image_try_shape [of sdk w request r' w''] Pair Inr show ?thesis by auto
  qed
qed




section \<open>The claims about the client handle and the credential\<close>

lemma generate_image_try_keeps_client:
  "client (server w) = Some c \<Longrightarrow> client (server (snd (generate_image_try sdk w request))) = Some c"
  by (simp add: generate_image_try_def get_client_cases Let_def split: sum.splits)

lemma generate_image_world:
  "snd (generate_image sdk print_line w request) = snd (generate_image_try sdk w request)"
  by (cases "generate_image_try sdk w request")
     (simp add: generate_image_def split: sum.splits option.splits)

lemma generate_image_keeps_client:
  "client (server w) = Some c \<Longrightarrow>
   client (server (snd (generate_image sdk print_line w request))) = Some c"
  by (simp add: generate_image_world generate_image_try_keeps_client)

lemma generate_image_from_base64_world:
  "decode_input b = Inr d \<Longrightarrow>
   snd (generate_image_from_base64 sdk print_line w p b m) =
     snd (generate_image sdk print_line w
       \<lparr>prompt = p, input_image_data = d, input_image_mime_type = m\<rparr>)"
  by (cases "generate_image sdk print_line w
       \<lparr>prompt = p, input_image_data = d, input_image_mime_type = m\<rparr>")
     (simp add: generate_image_from_base64_def Let_def split: option.splits sum.splits)

lemma generate_image_from_base64_keeps_client:
  "client (server w) = Some c \<Longrightarrow>
   client (server (snd (generate_image_from_base64 sdk print_line w p b m))) = Some c"
proof (cases "decode_input b")
  case (Inl e)
  assume "client (server w) = Some c"
  with Inl show ?thesis by (simp add: generate_image_from_base64_def)
next
  case (Inr image_data)
  assume "client (server w) = Some c"
  then show ?thesis
    by (simp add: generate_image_from_base64_world [OF Inr] generate_image_keeps_client)
qed

text \<open>
  Claim C8. The client handle is a lazy singleton. On a server without a handle,
  \<open>_get_client\<close> calls the constructor once with the server's API key, stores the handle
  it gets and returns it; on a server with a handle it returns that handle, changes
  nothing and calls no constructor; so a second call returns the handle of the first.
  No operation of the server replaces a stored handle.
\<close>

theorem get_client_lazy_singleton:
  "(client (server w) = None \<and> Client sdk (api_key (server w)) = Inr c \<longrightarrow>
      fst (get_client sdk w) = Inr c \<and>
      client (server (snd (get_client sdk w))) = Some c \<and>
      trace (snd (get_client sdk w)) = trace w @ [Client_call (api_key (server w))] \<and>
      get_client sdk' (snd (get_client sdk w)) = (Inr c, snd (get_client sdk w))) \<and>
   (client (server w) = Some c \<longrightarrow>
      get_client sdk w = (Inr c, w) \<and>
      client (server (snd (generate_image sdk print_line w request))) = Some c \<and>
      client (server (snd (generate_image_from_base64 sdk print_line w p b m))) = Some c)"
  by (simp add: get_client_cases generate_image_keeps_client
      generate_image_from_base64_keeps_client)

theorem get_client_lazy_singleton_witness:
  "client (server fresh_world) = None \<and>
   Client (stub_genai (Inr image_response)) (api_key (server fresh_world)) = Inr ''k'' \<and>
   fst (get_client (stub_genai (Inr image_response)) fresh_world) = Inr ''k'' \<and>
   snd (get_client (stub_genai (Inr image_response)) fresh_world) = warm_world \<and>
   client (server warm_world) = Some ''k'' \<and>
   get_client (broken_genai refused) warm_world = (Inr ''k'', warm_world) \<and>
   client (server (snd (generate_image (broken_genai refused) quiet_stdout warm_world
     bowl_request))) = Some ''k''"
proof -
  have h1: "client (server fresh_world) = None \<and>
      Client (stub_genai (Inr image_response)) (api_key (server fresh_world)) = Inr ''k''"
    by (simp add: fresh_world_def stub_genai_sel)
  have h2: "client (server warm_world) = Some ''k''"
    by (simp add: warm_world_def)
  have s: "snd (get_client (stub_genai (Inr image_response)) fresh_world) = warm_world"
    by (simp add: get_client_fresh_stub)
  from get_client_lazy_singleton
      [of fresh_world "stub_genai (Inr image_response)" "''k''" "broken_genai refused"]
    get_client_lazy_singleton
      [of warm_world "broken_genai refused" "''k''" _ quiet_stdout bowl_request]
    h1 h2 s
  show ?thesis by simp
qed

text \<open>
  Claim C9. Without a credential (no \<open>api_key\<close> argument or an empty one, and no
  \<open>GOOGLE_AI_STUDIO_API_KEY\<close> in the environment or an empty one) the constructor raises
  its configuration error, a \<open>ValueError\<close>: no server object exists on which a method could
  be called, and the tool function \<open>generate_image_with_nano_banana\<close> raises the same error
  instead of returning a result, without any call to the client library. A server that
  was constructed has a non-empty key.
\<close>

theorem init_requires_credential:
  "((api_key_arg = None \<or> api_key_arg = Some []) \<and>
    (environ ''GOOGLE_AI_STUDIO_API_KEY'' = None \<or> environ ''GOOGLE_AI_STUDIO_API_KEY'' = Some [])
    \<longrightarrow>
      (NanoBananaMCPServer_init api_key_arg environ :: py_exception + 'c NanoBananaMCPServer) =
        Inl (PyExc ''ValueError''
          ''Google AI Studio API key is required. Set GOOGLE_AI_STUDIO_API_KEY environment variable.'') \<and>
      generate_image_with_nano_banana (sdk :: ('c, 'p) genai) print_line environ calls p b m =
        (Inl (PyExc ''ValueError''
          ''Google AI Studio API key is required. Set GOOGLE_AI_STUDIO_API_KEY environment variable.''),
         calls)) \<and>
   (NanoBananaMCPServer_init api_key_arg environ = Inr (srv :: 'c NanoBananaMCPServer) \<longrightarrow>
      api_key srv \<noteq> [] \<and> client srv = None)"
  by (auto simp: NanoBananaMCPServer_init_def generate_image_with_nano_banana_def py_or_def
      split: option.splits if_splits)

theorem init_requires_credential_witness:
  "(NanoBananaMCPServer_init None Map.empty :: py_exception + string NanoBananaMCPServer) =
     Inl (PyExc ''ValueError''
       ''Google AI Studio API key is required. Set GOOGLE_AI_STUDIO_API_KEY environment variable.'') \<and>
   generate_image_with_nano_banana (stub_genai (Inr image_response)) quiet_stdout Map.empty []
       ''A ceramic bowl with patterns'' None None =
     (Inl (PyExc ''ValueError''
       ''Google AI Studio API key is required. Set GOOGLE_AI_STUDIO_API_KEY environment variable.''),
      []) \<and>
   (NanoBananaMCPServer_init (Some ''k'') Map.empty :: py_exception + string NanoBananaMCPServer) =
     Inr (server fresh_world) \<and>
   api_key (server fresh_world) \<noteq> []"
proof -
  have c: "(NanoBananaMCPServer_init (Some ''k'') Map.empty
      :: py_exception + string NanoBananaMCPServer) = Inr (server fresh_world)"
    by (simp add: NanoBananaMCPServer_init_def py_or_def fresh_world_def)
  from init_requires_credential
      [of None Map.empty "stub_genai (Inr image_response)" quiet_stdout "[]"
          "''A ceramic bowl with patterns''" None None]
    init_requires_credential
      [of "Some ''k''" Map.empty _ _ _ _ _ _ "server fresh_world"] c
  show ?thesis by simp
qed

section \<open>The claims about \<open>generate_image_from_base64\<close>\<close>

lemma not_base64_decode:
  "b64decode ''!!!not-base64!!!'' =
     Inl (PyExc ''binascii.Error''
       ''Invalid base64-encoded string: number of data characters (9) cannot be 1 more than a multiple of 4'')"
  by code_simp

lemma b64decode_raises_Exception: "b64decode s = Inl e \<Longrightarrow> is_Exception e"
  by (auto simp: b64decode_def a2b_base64_def split: if_splits a2b_exit.splits)

text \<open>
  Claim C4, evaluated where it fails. When the base64 input does not decode, the
  dictionary returned by \<open>generate_image_from_base64\<close> has the keys \<open>success\<close> and
  \<open>error\<close> only: the key \<open>model_used\<close> is missing, whatever the library, the standard
  output and the server state are.
\<close>

theorem decode_failure_omits_model_used:
  "\<exists>d. fst (generate_image_from_base64 sdk print_line w ''x'' (Some ''!!!not-base64!!!'')
            mime_type) = Inr d \<and>
       dom d = {''success'', ''error''} \<and> d ''model_used'' = None"
  by (simp add: generate_image_from_base64_def decode_input_def not_base64_decode)
     (auto simp: dom_def)

text \<open>
  Claim C5. A non-empty base64 input that fails to decode makes
  \<open>generate_image_from_base64\<close> return \<open>success = False\<close> with the error message
  \<open>Failed to decode base64 input image: \<close> followed by the text of the decoding
  exception; the server state is unchanged and no call to the client library is made:
  neither a client is constructed nor is \<open>generate_content\<close> called.
\<close>

theorem decode_failure_short_circuits:
  assumes "s \<noteq> []" and "b64decode s = Inl e"
  shows "fst (generate_image_from_base64 sdk print_line w p (Some s) mime_type) =
           Inr [''success'' \<mapsto> PyBool False,
                ''error'' \<mapsto> PyStr (''Failed to decode base64 input image: '' @ exc_str e)] \<and>
         snd (generate_image_from_base64 sdk print_line w p (Some s) mime_type) = w \<and>
         trace (snd (generate_image_from_base64 sdk print_line w p (Some s) mime_type)) = trace w"
  using assms b64decode_raises_Exception [OF assms(2)]
  by (simp add: generate_image_from_base64_def decode_input_def)

theorem decode_failure_short_circuits_witness:
  "''!!!not-base64!!!'' \<noteq> [] \<and>
   b64decode ''!!!not-base64!!!'' =
     Inl (PyExc ''binascii.Error''
       ''Invalid base64-encoded string: number of data characters (9) cannot be 1 more than a multiple of 4'') \<and>
   fst (generate_image_from_base64 (stub_genai (Inr image_response)) quiet_stdout fresh_world
         ''x'' (Some ''!!!not-base64!!!'') None) =
     Inr [''success'' \<mapsto> PyBool False,
          ''error'' \<mapsto> PyStr ''Failed to decode base64 input image: Invalid base64-encoded string: number of data characters (9) cannot be 1 more than a multiple of 4''] \<and>
   trace (snd (generate_image_from_base64 (stub_genai (Inr image_response)) quiet_stdout
         fresh_world ''x'' (Some ''!!!not-base64!!!'') None)) = []"
proof -
  have n: "''!!!not-base64!!!'' \<noteq> []" by simp
  have t: "trace fresh_world = []" by (simp add: fresh_world_def)
  from decode_failure_short_circuits [OF n not_base64_decode,
      of "stub_genai (Inr image_response)" quiet_stdout fresh_world "''x''" None]
    not_base64_decode t
  show ?thesis by simp
qed

text \<open>
  Claim C6. When the underlying \<open>generate_image\<close> call succeeds, the dictionary of
  \<open>generate_image_from_base64\<close> holds under \<open>generated_image_b64\<close> a string whose
  base64 decoding is exactly the \<open>generated_image_data\<close> of that call, and under
  \<open>generated_image_size\<close> the length of those bytes.
\<close>

theorem generated_image_b64_round_trip:
  assumes "decode_input input_image_b64 = Inr image_data"
    and "generate_image sdk print_line w
           \<lparr>prompt = p, input_image_data = image_data, input_image_mime_type = mime_type\<rparr> =
         (Inr response, w')"
    and "success response"
  shows "\<exists>g s d. generated_image_data response = Some g \<and>
           fst (generate_image_from_base64 sdk print_line w p input_image_b64 mime_type) =
             Inr d \<and>
           d ''generated_image_b64'' = Some (PyStr s) \<and>
           b64decode s = Inr g \<and>
           d ''generated_image_size'' = Some (PyInt (int (length g)))"
proof -
  from generate_image_shape [OF assms(2)] assms(3)
  obtain g where g: "generated_image_data response = Some g" "g \<noteq> []"
    by auto
  from assms g have
    "fst (generate_image_from_base64 sdk print_line w p input_image_b64 mime_type) =
       Inr ([''success'' \<mapsto> PyBool (success response),
             ''model_used'' \<mapsto> PyStr (model_used response),
             ''generated_image_b64'' \<mapsto> PyStr (b64encode g),
             ''generated_image_size'' \<mapsto> PyInt (int (length g))])"
    by (simp add: generate_image_from_base64_def)
  with g(1) b64decode_b64encode [of g] show ?thesis
    by (intro exI [of _ g] exI [of _ "b64encode g"]) simp
qed

theorem generated_image_b64_round_trip_witness:
  "decode_input None = Inr None \<and>
   fst (generate_image (stub_genai (Inr image_response)) quiet_stdout fresh_world
     bowl_request) =
     Inr \<lparr>success = True, generated_image_data = Some [1, 2, 3, 4, 255], error_message = None,
          model_used = ''gemini-2.5-flash-image-preview''\<rparr> \<and>
   (\<exists>s d. fst (generate_image_from_base64 (stub_genai (Inr image_response)) quiet_stdout
             fresh_world ''A ceramic bowl with patterns'' None None) = Inr d \<and>
        d ''generated_image_b64'' = Some (PyStr s) \<and>
        b64decode s = Inr [1, 2, 3, 4, 255] \<and>
        d ''generated_image_size'' = Some (PyInt 5))"
proof -
  have d: "decode_input None = Inr None" by (simp add: decode_input_def)
  have r: "bowl_request = \<lparr>prompt = ''A ceramic bowl with patterns'', input_image_data = None,
      input_image_mime_type = None\<rparr>"
    by (simp add: bowl_request_def)
  have ok: "generate_image (stub_genai (Inr image_response)) quiet_stdout fresh_world
      \<lparr>prompt = ''A ceramic bowl with patterns'', input_image_data = None,
       input_image_mime_type = None\<rparr> =
      (Inr \<lparr>success = True, generated_image_data = Some [1, 2, 3, 4, 255], error_message = None,
            model_used = ''gemini-2.5-flash-image-preview''\<rparr>,
       \<lparr>server = \<lparr>api_key = ''k'', model_name = ''gemini-2.5-flash-image-preview'',
                   client = Some ''k''\<rparr>,
        trace = [Client_call ''k'',
                 Generate_content_call ''k'' ''gemini-2.5-flash-image-preview''
                   [Text ''A ceramic bowl with patterns'']]\<rparr>)"
    by (simp add: run_defs stub_defs)
  have s: "success \<lparr>success = True, generated_image_data = Some [1, 2, 3, 4, 255 :: byte],
      error_message = None, model_used = ''gemini-2.5-flash-image-preview''\<rparr>"
    by simp
  from generated_image_b64_round_trip [OF d ok s] d r ok
  show ?thesis by auto
qed

text \<open>
  Claim C10. The empty string as \<open>input_image_b64\<close> is an absent image: nothing is
  decoded (so no decoding error can arise), the call behaves exactly as the call without
  an image, the contents assembled for the request are the prompt text alone, and
  any \<open>generate_content\<close> call made receives just that text.
\<close>

theorem empty_base64_is_no_image:
  "decode_input (Some []) = Inr None \<and>
   generate_image_from_base64 sdk print_line w p (Some []) mime_type =
     generate_image_from_base64 sdk print_line w p None mime_type \<and>
   prepare_contents sdk
     \<lparr>prompt = p, input_image_data = None, input_image_mime_type = mime_type\<rparr> = Inr [Text p] \<and>
   (get_client sdk w = (Inr c, w1) \<longrightarrow>
      trace (snd (generate_image_from_base64 sdk print_line w p (Some []) mime_type)) =
        trace w1 @ [Generate_content_call c (model_name (server w1)) [Text p]]) \<and>
   (get_client sdk w = (Inl e, w1) \<longrightarrow>
      trace (snd (generate_image_from_base64 sdk print_line w p (Some []) mime_type)) = trace w1)"
proof (intro conjI impI)
  show "decode_input (Some []) = Inr None" by (simp add: decode_input_def)
  show "generate_image_from_base64 sdk print_line w p (Some []) mime_type =
     generate_image_from_base64 sdk print_line w p None mime_type"
    by (simp add: generate_image_from_base64_def decode_input_def)
  show "prepare_contents sdk
     \<lparr>prompt = p, input_image_data = None, input_image_mime_type = mime_type\<rparr> = Inr [Text p]"
    by (simp add: prepare_contents_def)
next
  assume g: "get_client sdk w = (Inr c, w1)"
  have "trace (snd (generate_image_try sdk w
      \<lparr>prompt = p, input_image_data = None, input_image_mime_type = mime_type\<rparr>)) =
      trace w1 @ [Generate_content_call c (model_name (server w1)) [Text p]]"
    using g
    by (simp add: generate_image_try_def prepare_contents_def Let_def split: sum.splits)
  then show "trace (snd (generate_image_from_base64 sdk print_line w p (Some []) mime_type)) =
        trace w1 @ [Generate_content_call c (model_name (server w1)) [Text p]]"
    by (simp add: generate_image_from_base64_world [of "Some []" None] decode_input_def
        generate_image_world)
next
  assume g: "get_client sdk w = (Inl e, w1)"
  have "trace (snd (generate_image_try sdk w
      \<lparr>prompt = p, input_image_data = None, input_image_mime_type = mime_type\<rparr>)) = trace w1"
    using g by (simp add: generate_image_try_def)
  then show "trace (snd (generate_image_from_base64 sdk print_line w p (Some []) mime_type)) =
      trace w1"
    by (simp add: generate_image_from_base64_world [of "Some []" None] decode_input_def
        generate_image_world)
qed

theorem empty_base64_is_no_image_witness:
  "get_client (stub_genai (Inr image_response)) fresh_world = (Inr ''k'', warm_world) \<and>
   trace (snd (generate_image_from_base64 (stub_genai (Inr image_response)) quiet_stdout
     fresh_world ''A ceramic bowl with patterns'' (Some []) (Some ''image/jpeg''))) =
     [Client_call ''k'',
      Generate_content_call ''k'' ''gemini-2.5-flash-image-preview''
        [Text ''A ceramic bowl with patterns'']] \<and>
   (\<exists>d. fst (generate_image_from_base64 (stub_genai (Inr image_response)) quiet_stdout
           fresh_world ''A ceramic bowl with patterns'' (Some []) (Some ''image/jpeg'')) = Inr d \<and>
        d ''success'' = Some (PyBool True)) \<and>
   get_client (broken_genai refused) fresh_world =
     (Inl refused, fresh_world\<lparr>trace := [Client_call ''k'']\<rparr>) \<and>
   trace (snd (generate_image_from_base64 (broken_genai refused) quiet_stdout fresh_world
     ''A ceramic bowl with patterns'' (Some []) None)) = [Client_call ''k'']"
proof -
  have g: "get_client (stub_genai (Inr image_response)) fresh_world = (Inr ''k'', warm_world)"
    by (rule get_client_fresh_stub)
  have g': "get_client (broken_genai refused) fresh_world =
      (Inl refused, fresh_world\<lparr>trace := [Client_call ''k'']\<rparr>)"
    by (simp add: get_client_def fresh_world_def broken_genai_sel)
  have w: "trace warm_world = [Client_call ''k'']"
    "model_name (server warm_world) = ''gemini-2.5-flash-image-preview''"
    by (simp_all add: warm_world_def)
  have s: "\<exists>d. fst (generate_image_from_base64 (stub_genai (Inr image_response)) quiet_stdout
      fresh_world ''A ceramic bowl with patterns'' (Some []) (Some ''image/jpeg'')) = Inr d \<and>
      d ''success'' = Some (PyBool True)"
    by (simp add: generate_image_from_base64_def decode_input_def run_defs stub_defs)
  have a: "trace (snd (generate_image_from_base64 (stub_genai (Inr image_response))
     quiet_stdout fresh_world
     ''A ceramic bowl with patterns'' (Some []) (Some ''image/jpeg''))) =
     trace warm_world @ [Generate_content_call ''k'' (model_name (server warm_world))
        [Text ''A ceramic bowl with patterns'']]"
    using empty_base64_is_no_image
      [of "stub_genai (Inr image_response)" quiet_stdout fresh_world
          "''A ceramic bowl with patterns''" "Some ''image/jpeg''" "''k''" warm_world] g
    by blast
  have b: "trace (snd (generate_image_from_base64 (broken_genai refused) quiet_stdout
     fresh_world ''A ceramic bowl with patterns'' (Some []) None)) =
     trace (fresh_world\<lparr>trace := [Client_call ''k'']\<rparr>)"
    using empty_base64_is_no_image
      [of "broken_genai refused" quiet_stdout fresh_world "''A ceramic bowl with patterns''"
          None _ "fresh_world\<lparr>trace := [Client_call ''k'']\<rparr>" refused] g'
    by blast
  from g g' s a b w show ?thesis by simp
qed

section \<open>The claims about reading the response\<close>

lemma inline_image_empty:
  "(\<forall>d. inline_data q = Has (Some (Blob (Has (Some d)))) \<longrightarrow> d = []) \<Longrightarrow>
   inline_image q = None"
proof (cases q)
  case (Part a)
  assume h: "\<forall>d. inline_data q = Has (Some (Blob (Has (Some d)))) \<longrightarrow> d = []"
  show ?thesis
  proof (cases a)
    case Absent
    with Part show ?thesis by (simp add: inline_image_def)
  next
    case (Has ob)
    show ?thesis
    proof (cases ob)
      case None
      with Part Has show ?thesis by (simp add: inline_image_def)
    next
      case (Some blob)
      obtain da where blob: "blob = Blob da" by (cases blob)
      show ?thesis
      proof (cases da)
        case Absent
        with Part Has Some blob show ?thesis by (simp add: inline_image_def)
      next
        case (Has od) note Has_od = this
        show ?thesis
        proof (cases od)
          case None
          with Part \<open>a = Has ob\<close> Some blob Has_od show ?thesis by (simp add: inline_image_def)
        next
          case (Some d)
          with Part \<open>a = Has ob\<close> \<open>ob = Some blob\<close> blob Has_od h have "d = []" by simp
          with Part \<open>a = Has ob\<close> \<open>ob = Some blob\<close> blob Has_od Some show ?thesis
            by (simp add: inline_image_def)
        qed
      qed
    qed
  qed
qed

lemma inline_image_data:
  "inline_data part = Has (Some (Blob (Has (Some d)))) \<Longrightarrow> d \<noteq> [] \<Longrightarrow>
   inline_image part = Some d"
  by (simp add: inline_image_def)

lemma scan_parts_first:
  "\<forall>q \<in> set before. inline_image q = None \<Longrightarrow> inline_image part = Some d \<Longrightarrow>
   scan_parts (before @ part # later) = Some d"
  by (induction before) simp_all

lemma scan_parts_none: "\<forall>q \<in> set ps. inline_image q = None \<Longrightarrow> scan_parts ps = None"
  by (induction ps) simp_all

lemma generate_image_reads_response:
  assumes "get_client sdk w = (Inr c, w1)"
    and "prepare_contents sdk request = Inr contents"
    and "generate_content sdk c (model_name (server w1)) contents = Inr response"
    and "extract_generated_image response = Inr generated"
  shows "fst (generate_image sdk print_line w request) =
     (if truthy generated then
        Inr \<lparr>success = True, generated_image_data = generated, error_message = None,
             model_used = model_name (server w1)\<rparr>
      else
        Inr \<lparr>success = False, generated_image_data = None,
             error_message = Some ''No image data found in model response'',
             model_used = default_model_used\<rparr>)"
  using assms
  by (simp add: generate_image_def generate_image_try_def Let_def)

text \<open>
  Claim C7. For a response with at least one candidate, only the parts of the first
  candidate are scanned, in order. When every part before some part has no inline data
  bytes or empty ones, and that part has non-empty inline data bytes, these bytes are the
  image returned, whatever the parts after it and the other candidates are. When every
  part of the first candidate has no inline data bytes or empty ones, the call fails,
  whatever the other candidates hold.
\<close>

theorem first_inline_image_wins:
  "(get_client sdk w = (Inr c, w1) \<and> prepare_contents sdk request = Inr contents \<and>
    generate_content sdk c (model_name (server w1)) contents =
      Inr (GenerateContentResponse (Some
        (Candidate (Some (Content (Some (before @ part # later)))) # more_candidates))) \<and>
    (\<forall>q \<in> set before. \<forall>d'. inline_data q = Has (Some (Blob (Has (Some d')))) \<longrightarrow> d' = []) \<and>
    inline_data part = Has (Some (Blob (Has (Some d)))) \<and> d \<noteq> [] \<longrightarrow>
      fst (generate_image sdk print_line w request) =
        Inr \<lparr>success = True, generated_image_data = Some d, error_message = None,
             model_used = model_name (server w1)\<rparr>) \<and>
   (get_client sdk w = (Inr c, w1) \<and> prepare_contents sdk request = Inr contents \<and>
    generate_content sdk c (model_name (server w1)) contents =
      Inr (GenerateContentResponse (Some
        (Candidate (Some (Content (Some ps))) # more_candidates))) \<and>
    (\<forall>q \<in> set ps. \<forall>d'. inline_data q = Has (Some (Blob (Has (Some d')))) \<longrightarrow> d' = []) \<longrightarrow>
      fst (generate_image sdk print_line w request) =
        Inr \<lparr>success = False, generated_image_data = None,
             error_message = Some ''No image data found in model response'',
             model_used = default_model_used\<rparr>)"
proof (intro conjI impI)
  assume a: "get_client sdk w = (Inr c, w1) \<and> prepare_contents sdk request = Inr contents \<and>
    generate_content sdk c (model_name (server w1)) contents =
      Inr (GenerateContentResponse (Some
        (Candidate (Some (Content (Some (before @ part # later)))) # more_candidates))) \<and>
    (\<forall>q \<in> set before. \<forall>d'. inline_data q = Has (Some (Blob (Has (Some d')))) \<longrightarrow> d' = []) \<and>
    inline_data part = Has (Some (Blob (Has (Some d)))) \<and> d \<noteq> []"
  then have "\<forall>q \<in> set before. inline_image q = None"
    by (blast intro: inline_image_empty)
  moreover from a have "inline_image part = Some d"
    by (simp add: inline_image_data)
  ultimately have "scan_parts (before @ part # later) = Some d"
    by (rule scan_parts_first)
  then have "extract_generated_image (GenerateContentResponse (Some
        (Candidate (Some (Content (Some (before @ part # later)))) # more_candidates))) =
      Inr (Some d)"
    by (simp add: extract_generated_image_def)
  with a show "fst (generate_image sdk print_line w request) =
        Inr \<lparr>success = True, generated_image_data = Some d, error_message = None,
             model_used = model_name (server w1)\<rparr>"
    by (simp add: generate_image_reads_response [of sdk w c w1 request contents
          "GenerateContentResponse (Some
            (Candidate (Some (Content (Some (before @ part # later)))) # more_candidates))"
          "Some d"])
next
  assume a: "get_client sdk w = (Inr c, w1) \<and> prepare_contents sdk request = Inr contents \<and>
    generate_content sdk c (model_name (server w1)) contents =
      Inr (GenerateContentResponse (Some
        (Candidate (Some (Content (Some ps))) # more_candidates))) \<and>
    (\<forall>q \<in> set ps. \<forall>d'. inline_data q = Has (Some (Blob (Has (Some d')))) \<longrightarrow> d' = [])"
  then have "\<forall>q \<in> set ps. inline_image q = None"
    by (blast intro: inline_image_empty)
  then have "scan_parts ps = None" by (rule scan_parts_none)
  then have "extract_generated_image (GenerateContentResponse (Some
        (Candidate (Some (Content (Some ps))) # more_candidates))) = Inr None"
    by (simp add: extract_generated_image_def)
  with a show "fst (generate_image sdk print_line w request) =
        Inr \<lparr>success = False, generated_image_data = None,
             error_message = Some ''No image data found in model response'',
             model_used = default_model_used\<rparr>"
    by (simp add: generate_image_reads_response [of sdk w c w1 request contents
          "GenerateContentResponse (Some
            (Candidate (Some (Content (Some ps))) # more_candidates))" None])
qed

theorem first_inline_image_wins_witness:
  "image_response =
     GenerateContentResponse (Some
       (Candidate (Some (Content (Some
          ([text_part, image_part []] @ image_part [1, 2, 3, 4, 255] # [image_part [9]])))) #
        [Candidate (Some (Content (Some [image_part [7]])))])) \<and>
   inline_data text_part = Has None \<and>
   inline_data (image_part []) = Has (Some (Blob (Has (Some [])))) \<and>
   inline_data (image_part [1, 2, 3, 4, 255]) = Has (Some (Blob (Has (Some [1, 2, 3, 4, 255])))) \<and>
   fst (generate_image (stub_genai (Inr image_response)) quiet_stdout fresh_world
     bowl_request) =
     Inr \<lparr>success = True, generated_image_data = Some [1, 2, 3, 4, 255], error_message = None,
          model_used = ''gemini-2.5-flash-image-preview''\<rparr> \<and>
   fst (generate_image (stub_genai (Inr text_first_response)) quiet_stdout fresh_world
     bowl_request) =
     Inr \<lparr>success = False, generated_image_data = None,
          error_message = Some ''No image data found in model response'',
          model_used = ''gemini-2.5-flash-image-preview''\<rparr>"
proof -
  have i: "image_response =
     GenerateContentResponse (Some
       (Candidate (Some (Content (Some
          ([text_part, image_part []] @ image_part [1, 2, 3, 4, 255] # [image_part [9]])))) #
        [Candidate (Some (Content (Some [image_part [7]])))]))"
    by (simp add: image_response_def)
  have r1: "generate_content (stub_genai (Inr image_response)) ''k''
      (model_name (server warm_world)) [Text ''A ceramic bowl with patterns''] =
     Inr (GenerateContentResponse (Some
       (Candidate (Some (Content (Some
          ([text_part, image_part []] @ image_part [1, 2, 3, 4, 255] # [image_part [9]])))) #
        [Candidate (Some (Content (Some [image_part [7]])))])))"
    by (simp add: stub_genai_sel image_response_def)
  have p: "inline_data text_part = Has None"
    "inline_data (image_part []) = Has (Some (Blob (Has (Some []))))"
    "inline_data (image_part [1, 2, 3, 4, 255]) = Has (Some (Blob (Has (Some [1, 2, 3, 4, 255]))))"
    by (simp_all add: text_part_def image_part_def)
  have b: "\<forall>q \<in> set [text_part, image_part []].
      \<forall>d'. inline_data q = Has (Some (Blob (Has (Some d')))) \<longrightarrow> d' = []"
    by (simp add: p)
  have d: "[1, 2, 3, 4, 255 :: byte] \<noteq> []" by simp
  have r2: "generate_content (stub_genai (Inr text_first_response)) ''k''
      (model_name (server warm_world)) [Text ''A ceramic bowl with patterns''] =
     Inr (GenerateContentResponse (Some
       (Candidate (Some (Content (Some
          [text_part, Part Absent, Part (Has (Some (Blob Absent))),
           Part (Has (Some (Blob (Has None)))), Part (Has (Some (Blob (Has (Some [])))))]))) #
        [Candidate (Some (Content (Some [image_part [7]])))])))"
    by (simp add: stub_genai_sel text_first_response_def)
  have n: "\<forall>q \<in> set [text_part, Part Absent, Part (Has (Some (Blob Absent))),
           Part (Has (Some (Blob (Has None)))), Part (Has (Some (Blob (Has (Some [])))))].
        \<forall>d'. inline_data q = Has (Some (Blob (Has (Some d')))) \<longrightarrow> d' = []"
    by (simp add: text_part_def)
  have first: "fst (generate_image (stub_genai (Inr image_response)) quiet_stdout fresh_world
      bowl_request) =
     Inr \<lparr>success = True, generated_image_data = Some [1, 2, 3, 4, 255], error_message = None,
          model_used = model_name (server warm_world)\<rparr>"
    using first_inline_image_wins
      [of "stub_genai (Inr image_response)" fresh_world "''k''" warm_world bowl_request
          "[Text ''A ceramic bowl with patterns'']" "[text_part, image_part []]"
          "image_part [1, 2, 3, 4, 255]" "[image_part [9]]"
          "[Candidate (Some (Content (Some [image_part [7]])))]"
          "[1, 2, 3, 4, 255]" quiet_stdout]
      get_client_fresh_stub prepare_contents_bowl r1 b p(3) d
    by blast
  have second: "fst (generate_image (stub_genai (Inr text_first_response)) quiet_stdout
      fresh_world bowl_request) =
     Inr \<lparr>success = False, generated_image_data = None,
          error_message = Some ''No image data found in model response'',
          model_used = default_model_used\<rparr>"
    using first_inline_image_wins
      [of "stub_genai (Inr text_first_response)" fresh_world "''k''" warm_world bowl_request
          "[Text ''A ceramic bowl with patterns'']" _ _ _
          "[Candidate (Some (Content (Some [image_part [7]])))]" _ quiet_stdout
          "[text_part, Part Absent, Part (Has (Some (Blob Absent))),
            Part (Has (Some (Blob (Has None)))), Part (Has (Some (Blob (Has (Some [])))))]"]
      get_client_fresh_stub prepare_contents_bowl r2 n
    by blast
  from i p first second show ?thesis
    by (simp add: model_name_warm default_model_used_def)
qed

text \<open>
  Claim C2, evaluated where it fails. For a response with zero candidates
  \<open>response.candidates[0]\<close> raises \<open>IndexError\<close> before any part is looked at; the handler
  reports it as \<open>Image generation failed: list index out of range\<close>, where the path for a
  response without image data reports \<open>No image data found in model response\<close>.
\<close>

theorem no_candidates_gives_index_error_message:
  "candidates no_candidates_response = Some [] \<and>
   fst (generate_image (stub_genai (Inr no_candidates_response)) quiet_stdout fresh_world
     bowl_request) =
     Inr \<lparr>success = False, generated_image_data = None,
          error_message = Some ''Image generation failed: list index out of range'',
          model_used = ''gemini-2.5-flash-image-preview''\<rparr>"
  by (simp add: run_defs stub_defs no_candidates_response_def)

end
